theory Spec2Isabelle
  imports Main "HOL-Library.AList" "HOL-Library.Sublist"
begin

section \<open>Python values and the string primitives the driver uses\<close>

text \<open>
  The source is \<^verbatim>\<open>msticpy/data/drivers/splunk_driver.py\<close>. Dictionary values are typed
  \<^verbatim>\<open>Any\<close> there; the model keeps the kinds of value that the coercions of
  \<^verbatim>\<open>connect\<close> tell apart: strings, integers, booleans and \<^verbatim>\<open>None\<close>. Strings are
  byte strings restricted to ASCII: case folding, whitespace and digits outside ASCII
  are not modelled.
\<close>

datatype pyval = PStr string | PInt int | PBool bool | PNone

text \<open>
  A Python \<^verbatim>\<open>dict\<close> with string keys, as an association list in insertion order with
  distinct keys. \<^verbatim>\<open>d[k] = v\<close> is \<^const>\<open>AList.update\<close> (an existing key keeps its
  place, a new key goes to the end), \<^verbatim>\<open>d.get(k)\<close> is \<^const>\<open>map_of\<close>.
\<close>

type_synonym dict = "(string \<times> pyval) list"

text \<open>\<^verbatim>\<open>d.update(other)\<close>: assigns the items of \<^verbatim>\<open>other\<close> in their order.\<close>

definition dict_update :: "dict \<Rightarrow> dict \<Rightarrow> dict" where
  "dict_update d other = fold (\<lambda>(k, v). AList.update k v) other d"

text \<open>\<^verbatim>\<open>s.split(sep)\<close> for a one-character separator: never an empty list.\<close>

fun split :: "char \<Rightarrow> string \<Rightarrow> string list" where
  "split sep [] = [[]]"
| "split sep (c # cs) =
     (if c = sep then [] # split sep cs
      else (case split sep cs of
              [] \<Rightarrow> [[c]]
            | w # ws \<Rightarrow> (c # w) # ws))"

text \<open>\<^verbatim>\<open>str.isspace\<close> on an ASCII character: codes 9 to 13, 28 to 32.\<close>

definition isspace :: "char \<Rightarrow> bool" where
  "isspace c = (let n = (of_char c :: nat) in (9 \<le> n \<and> n \<le> 13) \<or> (28 \<le> n \<and> n \<le> 32))"

text \<open>\<^verbatim>\<open>s.strip()\<close>: leading and trailing whitespace removed.\<close>

definition strip :: "string \<Rightarrow> string" where
  "strip s = rev (dropWhile isspace (rev (dropWhile isspace s)))"

text \<open>\<^verbatim>\<open>s.casefold()\<close> on ASCII: upper-case letters to lower case.\<close>

definition casefold_char :: "char \<Rightarrow> char" where
  "casefold_char c =
     (let n = (of_char c :: nat) in if 65 \<le> n \<and> n \<le> 90 then char_of (n + 32) else c)"

definition casefold :: "string \<Rightarrow> string" where
  "casefold s = map casefold_char s"

text \<open>\<^verbatim>\<open>sub in s\<close> for strings: \<^verbatim>\<open>sub\<close> occurs in \<^verbatim>\<open>s\<close> as a contiguous run.\<close>

fun startswith :: "string \<Rightarrow> string \<Rightarrow> bool" where
  "startswith s [] = True"
| "startswith [] (p # ps) = False"
| "startswith (c # cs) (p # ps) = (c = p \<and> startswith cs ps)"

fun str_in :: "string \<Rightarrow> string \<Rightarrow> bool" where
  "str_in sub [] = (sub = [])"
| "str_in sub (c # cs) = (startswith (c # cs) sub \<or> str_in sub cs)"

text \<open>\<^verbatim>\<open>sep.join(parts)\<close>.\<close>

fun join :: "string \<Rightarrow> string list \<Rightarrow> string" where
  "join sep [] = []"
| "join sep [p] = p"
| "join sep (p # q # ps) = p @ sep @ join sep (q # ps)"

section \<open>Formatters\<close>

text \<open>
  \<^verbatim>\<open>_format_list\<close> (lines 263 to 267):
  \<^verbatim>\<open>fmt_list = [f'"{item}"' for item in param_list]; return ",".join(fmt_list)\<close>.
  The items are typed \<^verbatim>\<open>Any\<close>; \<open>fmt\<close> is what the f-string renders an item as
  (\<^verbatim>\<open>format(item, "")\<close>), the identity on strings.
\<close>

definition format_list :: "('a \<Rightarrow> string) \<Rightarrow> 'a list \<Rightarrow> string" where
  "format_list fmt param_list =
     (let fmt_list = map (\<lambda>item. [CHR 0x22] @ fmt item @ [CHR 0x22]) param_list
      in join '','' fmt_list)"


section \<open>Errors\<close>

text \<open>
  What the session factory \<^verbatim>\<open>splunklib.client.connect\<close> and the other calls into the
  client library can raise, each with its text (\<^verbatim>\<open>str(err)\<close>). \<^verbatim>\<open>connect\<close> catches the
  first two.
\<close>

datatype client_exc = AuthenticationError string | HTTPError string | OtherClientError string

text \<open>
  Every exception that leaves the driver. The three \<^verbatim>\<open>Msticpy...\<close> exceptions carry
  their positional arguments and their \<^verbatim>\<open>title\<close> (and \<^verbatim>\<open>help_uri\<close>);
  \<open>ConnectionError\<close> is the Python builtin of that name, raised with two arguments.
  \<open>AttributeError\<close> is the fault of reading an attribute of \<^verbatim>\<open>None\<close>.
\<close>

datatype error =
    MsticpyUserError "string list" string
  | MsticpyConnectionError "string list" string
  | MsticpyNotConnectedError "string list" string string
  | ConnectionError "string list"
  | IndexError
  | KeyError string
  | ValueError
  | TypeError
  | AttributeError
  | Raised client_exc

section \<open>Coercions\<close>

definition isdigit :: "char \<Rightarrow> bool" where
  "isdigit c = (let n = (of_char c :: nat) in 48 \<le> n \<and> n \<le> 57)"

definition digit_val :: "char \<Rightarrow> nat" where
  "digit_val c = of_char c - 48"

text \<open>
  The digits of a decimal literal as \<^verbatim>\<open>int(str)\<close> reads them: one underscore is
  allowed between two digits.
\<close>

fun digits_value :: "nat \<Rightarrow> string \<Rightarrow> nat option" where
  "digits_value acc [] = Some acc"
| "digits_value acc [c] = (if isdigit c then Some (10 * acc + digit_val c) else None)"
| "digits_value acc (c # d # cs) =
     (if isdigit c then digits_value (10 * acc + digit_val c) (d # cs)
      else if c = CHR ''_'' \<and> isdigit d then digits_value acc (d # cs)
      else None)"

definition unsigned_of_str :: "string \<Rightarrow> nat option" where
  "unsigned_of_str s =
     (case s of [] \<Rightarrow> None | c # _ \<Rightarrow> if isdigit c then digits_value 0 s else None)"

text \<open>
  The whitespace that \<^verbatim>\<open>int(s)\<close> skips around an ASCII literal: codes 9 to 13 and 32.
  It is narrower than \<^verbatim>\<open>str.isspace\<close>: the separators 28 to 31 are no part of it, and
  \<^verbatim>\<open>int\<close> raises \<^verbatim>\<open>ValueError\<close> on a string that has one.
\<close>

definition int_space :: "char \<Rightarrow> bool" where
  "int_space c = (let n = (of_char c :: nat) in (9 \<le> n \<and> n \<le> 13) \<or> n = 32)"

text \<open>\<^verbatim>\<open>int(s)\<close> for a string: surrounding whitespace, an optional sign, decimal digits.\<close>

definition int_of_str :: "string \<Rightarrow> int option" where
  "int_of_str s =
     (case rev (dropWhile int_space (rev (dropWhile int_space s))) of
        [] \<Rightarrow> None
      | c # cs \<Rightarrow>
          if c = CHR ''-'' then map_option (\<lambda>n. - int n) (unsigned_of_str cs)
          else if c = CHR ''+'' then map_option int (unsigned_of_str cs)
          else map_option int (unsigned_of_str (c # cs)))"

text \<open>\<^verbatim>\<open>int(v)\<close>: \<^verbatim>\<open>ValueError\<close> on a string that is no integer, \<^verbatim>\<open>TypeError\<close> on \<^verbatim>\<open>None\<close>.\<close>

fun py_int :: "pyval \<Rightarrow> error + int" where
  "py_int (PStr s) = (case int_of_str s of None \<Rightarrow> Inl ValueError | Some n \<Rightarrow> Inr n)"
| "py_int (PInt n) = Inr n"
| "py_int (PBool b) = Inr (if b then 1 else 0)"
| "py_int PNone = Inl TypeError"

text \<open>
  Lines 102 to 108, the new value of \<^verbatim>\<open>cs_dict["verify"]\<close> from
  \<^verbatim>\<open>verify_opt = cs_dict.get("verify")\<close>: the \<^verbatim>\<open>isinstance\<close> chain tests \<^verbatim>\<open>str\<close>, then
  \<^verbatim>\<open>bool\<close>; an absent key gives \<^verbatim>\<open>None\<close>.
\<close>

fun verify_coerce :: "pyval option \<Rightarrow> bool" where
  "verify_coerce (Some (PStr verify_opt)) = str_in ''true'' (casefold verify_opt)"
| "verify_coerce (Some (PBool verify_opt)) = verify_opt"
| "verify_coerce _ = False"

section \<open>Module and class constants\<close>

text \<open>\<^verbatim>\<open>SPLUNK_CONNECT_ARGS\<close> (lines 27 to 47), name and description, in the order written.\<close>

definition SPLUNK_CONNECT_ARGS :: "(string \<times> string) list" where
  "SPLUNK_CONNECT_ARGS =
    [(''host'', ''(string) The host name (the default is 'localhost').''),
     (''port'', ''(integer) The port number (the default is 8089).''),
     (''scheme'', ''('https' or 'http') The scheme for accessing the service ''
        @ ''(the default is 'https').''),
     (''verify'', ''(Boolean) Enable (True) or disable (False) SSL verrification for ''
        @ ''https connections. (optional, the default is True)''),
     (''owner'', ''(string) The owner context of the namespace (optional).''),
     (''app'', ''(string) The app context of the namespace (optional).''),
     (''sharing'', ''('global', 'system', 'app', or 'user') ''
        @ ''The sharing mode for the namespace (the default is 'user').''),
     (''token'', ''(string) The current session token (optional). Session tokens can be''
        @ '' shared across multiple service instances.''),
     (''cookie'', ''(string) A session cookie. When provided, you don''
        @ [CHR 0xE2, CHR 0x80, CHR 0x99] @ ''t need to call''
        @ '' login(). This parameter is only supported for Splunk 6.2+.''),
     (''autologin'', ''(boolean) When True, automatically tries to log in again if''
        @ '' the session terminates.''),
     (''username'', ''(string) The Splunk account username, which is used to ''
        @ ''authenticate the Splunk instance.''),
     (''password'', ''(string) The password for the Splunk account.'')]"

text \<open>
  The value that line 54 gives the class attribute \<^verbatim>\<open>_CONNECT_DEFAULTS\<close> when the class
  is created.
\<close>

definition CONNECT_DEFAULTS_initial :: dict where
  "CONNECT_DEFAULTS_initial =
     [(''port'', PInt 8089), (''http_scheme'', PStr ''https''), (''verify'', PBool False)]"

section \<open>State\<close>

text \<open>
  What outlives a call: the dictionary object bound to the class attribute
  \<^verbatim>\<open>SplunkDriver._CONNECT_DEFAULTS\<close>, one for all instances, and the lines printed.
\<close>

record globals =
  CONNECT_DEFAULTS :: dict
  stdout :: "string list"

text \<open>
  A driver instance, by the attributes the operations read and write: \<^verbatim>\<open>service\<close>
  (\<^verbatim>\<open>None\<close> until a session is stored) and \<^verbatim>\<open>_connected\<close>.
\<close>

record 's SplunkDriver =
  service :: "'s option"
  priv_connected :: bool

text \<open>
  Modelled from the spec: the property \<^verbatim>\<open>connected\<close> of \<^verbatim>\<open>DriverBase\<close>
  (\<^verbatim>\<open>driver_base.py\<close> is not among the sources). The spec has one connected flag, which
  a successful connect sets and the accessors test ("marks the driver as connected",
  "driver must be connected"): the property reads \<^verbatim>\<open>_connected\<close>.
\<close>

definition connected :: "'s SplunkDriver \<Rightarrow> bool" where
  "connected self = priv_connected self"

section \<open>Connection manager\<close>

text \<open>
  Modelled from the spec: \<^verbatim>\<open>check_kwargs\<close> of \<^verbatim>\<open>msticpy.common.utility\<close>, which is not
  among the sources. The spec: "Validates that host, username, password are present;
  fails with a MissingArgument error naming the missing keys if not." \<open>Inl\<close> is the
  \<^verbatim>\<open>NameError\<close> that \<^verbatim>\<open>connect\<close> catches, with the missing names as its arguments.
\<close>

definition check_kwargs :: "dict \<Rightarrow> string list \<Rightarrow> string list + unit" where
  "check_kwargs supplied_args required =
     (case filter (\<lambda>name. map_of supplied_args name = None) required of
        [] \<Rightarrow> Inr ()
      | missing \<Rightarrow> Inl missing)"

text \<open>
  Lines 85 to 88, the dictionary comprehension over the segments of the connection
  string: key \<^verbatim>\<open>cs_item.split("=")[0].strip()\<close>, value \<^verbatim>\<open>cs_item.split("=")[1]\<close>. A
  segment without \<^verbatim>\<open>=\<close> splits into one part, and index 1 raises \<^verbatim>\<open>IndexError\<close>.
\<close>

fun cs_comprehension :: "string list \<Rightarrow> dict \<Rightarrow> error + dict" where
  "cs_comprehension [] acc = Inr acc"
| "cs_comprehension (cs_item # cs_items) acc =
     (case split CHR ''='' cs_item of
        key # val # _ \<Rightarrow> cs_comprehension cs_items (AList.update (strip key) (PStr val) acc)
      | _ \<Rightarrow> Inl IndexError)"

text \<open>The message of lines 93 to 99.\<close>

definition no_connection_details :: "string list \<Rightarrow> error" where
  "no_connection_details required_args =
     MsticpyUserError
       ([''No connection details provided for Splunk connector'',
         ''Required parameters are '' @ join '', '' required_args,
         ''All parameters:'']
        @ map (\<lambda>(arg, desc). arg @ '': '' @ desc) SPLUNK_CONNECT_ARGS)
       ''no Splunk connection parameters''"

text \<open>
  Lines 82 to 99: the items that \<^verbatim>\<open>cs_dict.update\<close> is called with, or the exception
  raised before any call of it. A connection string that is \<^verbatim>\<open>None\<close> or empty is
  false, and so is an empty \<^verbatim>\<open>kwargs\<close>; \<^verbatim>\<open>kwargs\<close> is looked at only when the
  connection string is false.
\<close>

definition supplied_items :: "string list \<Rightarrow> string option \<Rightarrow> dict \<Rightarrow> error + dict" where
  "supplied_items required_args connection_str kwargs =
     (case connection_str of
        Some (c # cs) \<Rightarrow>
          (let cs_items = split CHR '';'' (c # cs) in cs_comprehension cs_items [])
      | _ \<Rightarrow> if kwargs \<noteq> [] then Inr kwargs else Inl (no_connection_details required_args))"

text \<open>
  \<^verbatim>\<open>connect\<close> (lines 70 to 125). \<open>client_connect\<close> is \<^verbatim>\<open>splunklib.client.connect\<close>,
  called with the filtered dictionary. Line 81 binds \<^verbatim>\<open>cs_dict\<close> to the class
  dictionary itself, not to a copy: every assignment to \<^verbatim>\<open>cs_dict\<close> is an assignment
  to the class dictionary, and stays when a later line raises.
\<close>

definition connect ::
  "(dict \<Rightarrow> client_exc + 's) \<Rightarrow> string option \<Rightarrow> dict \<Rightarrow> globals \<times> 's SplunkDriver
     \<Rightarrow> (error + unit) \<times> globals \<times> 's SplunkDriver" where
  "connect client_connect connection_str kwargs st =
     (let (g, self) = st;
          required_args = [''host'', ''username'', ''password'']
      in case supplied_items required_args connection_str kwargs of
        Inl e \<Rightarrow> (Inl e, g, self)
      | Inr items \<Rightarrow>
         (let cs1 = dict_update (CONNECT_DEFAULTS g) items in
          case map_of cs1 ''port'' of
            None \<Rightarrow> (Inl (KeyError ''port''), g\<lparr>CONNECT_DEFAULTS := cs1\<rparr>, self)
          | Some port \<Rightarrow>
             (case py_int port of
                Inl e \<Rightarrow> (Inl e, g\<lparr>CONNECT_DEFAULTS := cs1\<rparr>, self)
              | Inr n \<Rightarrow>
                 (let cs2 = AList.update ''port'' (PInt n) cs1;
                      verify_opt = map_of cs2 ''verify'';
                      cs_dict = AList.update ''verify'' (PBool (verify_coerce verify_opt)) cs2;
                      g' = g\<lparr>CONNECT_DEFAULTS := cs_dict\<rparr>
                  in case check_kwargs cs_dict required_args of
                    Inl args \<Rightarrow>
                      (Inl (MsticpyUserError args ''Required arguments missing''), g', self)
                  | Inr _ \<Rightarrow>
                     (let arg_dict =
                            filter (\<lambda>(key, val). key \<in> set (map fst SPLUNK_CONNECT_ARGS)) cs_dict
                      in case client_connect arg_dict of
                        Inl (AuthenticationError m) \<Rightarrow>
                          (Inl (MsticpyConnectionError
                                  [''Error connecting to Splunk: '' @ m] ''Splunk connection''),
                           g', self)
                      | Inl (HTTPError m) \<Rightarrow>
                          (Inl (MsticpyConnectionError
                                  [''Error connecting to Splunk: '' @ m] ''Splunk connection''),
                           g', self)
                      | Inl (OtherClientError m) \<Rightarrow> (Inl (Raised (OtherClientError m)), g', self)
                      | Inr svc \<Rightarrow>
                          (Inr (),
                           g'\<lparr>stdout := stdout g' @ [''Connected to Splunk successfully !!'']\<rparr>,
                           self\<lparr>service := Some svc, priv_connected := True\<rparr>))))))"

text \<open>
  The state before any call of \<^verbatim>\<open>connect\<close>: the class dictionary as line 54 writes
  it and nothing printed; an instance with the attribute values that lines 59 and 61
  assign.
\<close>

definition initial_globals :: globals where
  "initial_globals = \<lparr>CONNECT_DEFAULTS = CONNECT_DEFAULTS_initial, stdout = []\<rparr>"

definition unconnected :: "'s SplunkDriver" where
  "unconnected = \<lparr>service = None, priv_connected = False\<rparr>"


section \<open>Query executor\<close>

text \<open>
  What \<^verbatim>\<open>json_response\<close> can be for the test \<^verbatim>\<open>isinstance(json_response, int)\<close> of
  line 156: a list of records, or an integer.
\<close>

datatype 'row json_response = JList "'row list" | JInt int

text \<open>
  What \<^verbatim>\<open>query\<close> returns: line 159 returns a table, line 158 the pair
  \<^verbatim>\<open>(None, json_response)\<close>.
\<close>

datatype ('row, 'tbl) query_return =
    OneTable 'tbl
  | TwoTuple "'tbl option" "'row json_response"

text \<open>
  Lines 156 to 159 as a function of \<^verbatim>\<open>json_response\<close>. \<open>to_table\<close> is
  \<^verbatim>\<open>pd.DataFrame(pd.io.json.json_normalize(...))\<close> of pandas.
\<close>

fun query_result ::
  "('row list \<Rightarrow> 'tbl) \<Rightarrow> 'row json_response \<Rightarrow> globals
     \<Rightarrow> ('row, 'tbl) query_return \<times> globals" where
  "query_result to_table (JInt n) g =
     (TwoTuple None (JInt n),
      g\<lparr>stdout := stdout g @ [''Warning - query did not return any results.'']\<rparr>)"
| "query_result to_table (JList rows) g = (OneTable (to_table rows), g)"

text \<open>
  \<^verbatim>\<open>query\<close> (lines 127 to 159). \<open>oneshot\<close> is the client library: the rows that
  \<^verbatim>\<open>ResultsReader(self.service.jobs.oneshot(query))\<close> yields, or the exception it raises.
  \<^verbatim>\<open>json_response\<close> starts as the empty list and gets each row appended.
\<close>

definition query ::
  "('s \<Rightarrow> string \<Rightarrow> client_exc + 'row list) \<Rightarrow> ('row list \<Rightarrow> 'tbl) \<Rightarrow> string
     \<Rightarrow> globals \<times> 's SplunkDriver \<Rightarrow> (error + ('row, 'tbl) query_return) \<times> globals" where
  "query oneshot to_table query_text st =
     (let (g, self) = st in
      if \<not> priv_connected self then
        (Inl (ConnectionError [''Source is not connected.'', ''Please call connect() and retry'']),
         g)
      else
        (case service self of
           None \<Rightarrow> (Inl AttributeError, g)
         | Some svc \<Rightarrow>
            (case oneshot svc query_text of
               Inl exc \<Rightarrow> (Inl (Raised exc), g)
             | Inr reader \<Rightarrow>
                (let json_response = fold (\<lambda>row acc. acc @ [row]) reader []
                 in case query_result to_table (JList json_response) g of
                      (res, g') \<Rightarrow> (Inr res, g')))))"

section \<open>Saved searches and fired alerts\<close>

text \<open>A table of two named columns.\<close>

type_synonym ('a, 'b) two_columns = "(string \<times> 'a list) \<times> (string \<times> 'b list)"

text \<open>
  \<^verbatim>\<open>_saved_searches\<close> (lines 198 to 227). \<open>saved_searches_of\<close> is the collection
  \<^verbatim>\<open>self.service.saved_searches\<close> of the client library, each entry by its
  \<^verbatim>\<open>name\<close> and its \<^verbatim>\<open>["search"]\<close>.
\<close>

definition saved_searches ::
  "('s \<Rightarrow> ('a \<times> 'b) list) \<Rightarrow> 's SplunkDriver \<Rightarrow> error + ('a, 'b) two_columns" where
  "saved_searches saved_searches_of self =
     (if \<not> connected self then
        Inl (MsticpyNotConnectedError
               [''Please run the connect() method before running a query.'']
               ''not connected to a workspace.'' ''TBD'')
      else
        (case service self of
           None \<Rightarrow> Inl AttributeError
         | Some svc \<Rightarrow>
            (let savedsearches = saved_searches_of svc;
                 namelist = fold (\<lambda>savedsearch acc. acc @ [fst savedsearch]) savedsearches [];
                 querylist = fold (\<lambda>savedsearch acc. acc @ [snd savedsearch]) savedsearches []
             in Inr ((''name'', namelist), (''query'', querylist)))))"

text \<open>
  \<^verbatim>\<open>_fired_alerts\<close> (lines 229 to 256). \<open>fired_alerts_of\<close> is the collection
  \<^verbatim>\<open>self.service.fired_alerts\<close>, each entry by its \<^verbatim>\<open>name\<close> and its \<^verbatim>\<open>count\<close>.
\<close>

definition fired_alerts ::
  "('s \<Rightarrow> ('a \<times> 'b) list) \<Rightarrow> 's SplunkDriver \<Rightarrow> error + ('a, 'b) two_columns" where
  "fired_alerts fired_alerts_of self =
     (if \<not> connected self then
        Inl (ConnectionError [''Source is not connected.'', ''Please call connect() and retry''])
      else
        (case service self of
           None \<Rightarrow> Inl AttributeError
         | Some svc \<Rightarrow>
            (let firedalerts = fired_alerts_of svc;
                 alert_names = fold (\<lambda>alert acc. acc @ [fst alert]) firedalerts [];
                 alert_counts = fold (\<lambda>alert acc. acc @ [snd alert]) firedalerts []
             in Inr ((''name'', alert_names), (''count'', alert_counts)))))"

section \<open>Properties\<close>

subsection \<open>Auxiliary facts\<close>

lemmas eval_defs = connect_def supplied_items_def initial_globals_def unconnected_def
  CONNECT_DEFAULTS_initial_def dict_update_def strip_def isspace_def int_space_def int_of_str_def
  unsigned_of_str_def isdigit_def digit_val_def check_kwargs_def casefold_def casefold_char_def
  SPLUNK_CONNECT_ARGS_def






lemma fold_append_rows: "fold (\<lambda>row acc. acc @ [row]) rows acc0 = acc0 @ rows"
  by (induction rows arbitrary: acc0) simp_all



lemma cs_comprehension_error: "cs_comprehension cs_items acc = Inl e \<Longrightarrow> e = IndexError"
  by (induction cs_items arbitrary: acc) (auto split: list.splits)


lemma py_int_error: "py_int v = Inl e \<Longrightarrow> e = ValueError \<or> e = TypeError"
  by (cases v) (auto split: option.splits)

lemma supplied_items_error:
  assumes "supplied_items required_args connection_str kwargs = Inl e"
  shows "((connection_str = None \<or> connection_str = Some []) \<and> kwargs = [] \<and>
          e = no_connection_details required_args) \<or>
         (connection_str \<noteq> None \<and> connection_str \<noteq> Some [] \<and> e = IndexError)"
  using assms
  by (auto simp: supplied_items_def Let_def split: option.splits list.splits if_splits
      dest: cs_comprehension_error)




lemma connect_supplied_error:
  assumes "supplied_items [''host'', ''username'', ''password''] connection_str kwargs = Inl e"
  shows "connect client_connect connection_str kwargs (g, self) = (Inl e, g, self)"
  using assms by (simp add: connect_def)

lemma connect_not_user_input_error:
  assumes "supplied_items [''host'', ''username'', ''password''] connection_str kwargs = Inr items"
  shows "fst (connect client_connect connection_str kwargs (g, self)) \<noteq>
         Inl (MsticpyUserError args ''no Splunk connection parameters'')"
  using assms
  by (auto simp: connect_def Let_def split: option.splits sum.splits client_exc.splits
      dest: py_int_error)





lemma connect_port_error:
  assumes "supplied_items [''host'', ''username'', ''password''] connection_str kwargs = Inr items"
    and "map_of (dict_update (CONNECT_DEFAULTS g) items) ''port'' = Some port"
    and "py_int port = Inl e"
  shows "connect client_connect connection_str kwargs (g, self) =
         (Inl e, g\<lparr>CONNECT_DEFAULTS := dict_update (CONNECT_DEFAULTS g) items\<rparr>, self)"
  using assms by (simp add: connect_def)

lemma connect_port_ok:
  assumes "supplied_items [''host'', ''username'', ''password''] connection_str kwargs = Inr items"
    and "merged = dict_update (CONNECT_DEFAULTS g) items"
    and "map_of merged ''port'' = Some port"
    and "py_int port = Inr n"
    and "missing = filter (\<lambda>name. map_of merged name = None) [''host'', ''username'', ''password'']"
    and "cs_dict = AList.update ''verify'' (PBool (verify_coerce (map_of merged ''verify'')))
                     (AList.update ''port'' (PInt n) merged)"
    and "arg_dict = filter (\<lambda>(key, val). key \<in> fst ` set SPLUNK_CONNECT_ARGS) cs_dict"
  shows "connect client_connect connection_str kwargs (g, self) =
      (if missing = [] then
           (case client_connect arg_dict of
              Inl (AuthenticationError m) \<Rightarrow>
                (Inl (MsticpyConnectionError [''Error connecting to Splunk: '' @ m] ''Splunk connection''),
                 g\<lparr>CONNECT_DEFAULTS := cs_dict\<rparr>, self)
            | Inl (HTTPError m) \<Rightarrow>
                (Inl (MsticpyConnectionError [''Error connecting to Splunk: '' @ m] ''Splunk connection''),
                 g\<lparr>CONNECT_DEFAULTS := cs_dict\<rparr>, self)
            | Inl (OtherClientError m) \<Rightarrow>
                (Inl (Raised (OtherClientError m)), g\<lparr>CONNECT_DEFAULTS := cs_dict\<rparr>, self)
            | Inr svc \<Rightarrow>
                (Inr (),
                 g\<lparr>CONNECT_DEFAULTS := cs_dict,
                    stdout := stdout g @ [''Connected to Splunk successfully !!'']\<rparr>,
                 self\<lparr>service := Some svc, priv_connected := True\<rparr>))
       else (Inl (MsticpyUserError missing ''Required arguments missing''),
               g\<lparr>CONNECT_DEFAULTS := cs_dict\<rparr>, self))"
proof -
  have chk: "check_kwargs cs_dict [''host'', ''username'', ''password''] =
             (if missing = [] then Inr () else Inl missing)"
    by (simp add: check_kwargs_def assms(5) assms(6) AList.update_conv' split: list.splits)
  show ?thesis
    unfolding connect_def
    using assms(1) assms(3) assms(4) chk
    by (simp add: Let_def assms(2) [symmetric] assms(6) assms(7) AList.update_conv'
        split: sum.splits client_exc.splits)
qed

lemmas init_defs = dict_update_def initial_globals_def CONNECT_DEFAULTS_initial_def

subsection \<open>Operations on a driver that is not connected\<close>

text \<open>
  C1. On every driver instance whose \<^verbatim>\<open>_connected\<close> flag is unset, each of the three
  operations raises at its guard, before it reads the session: \<^verbatim>\<open>query\<close> and the
  fired-alerts accessor raise the builtin \<^verbatim>\<open>ConnectionError\<close>, and only the
  saved-searches accessor raises \<^verbatim>\<open>MsticpyNotConnectedError\<close>.
\<close>

theorem not_connected_raises:
  "query oneshot to_table q (g, self\<lparr>priv_connected := False\<rparr>) =
     (Inl (ConnectionError [''Source is not connected.'', ''Please call connect() and retry'']), g) \<and>
   fired_alerts fired_alerts_of (self\<lparr>priv_connected := False\<rparr>) =
     Inl (ConnectionError [''Source is not connected.'', ''Please call connect() and retry'']) \<and>
   saved_searches saved_searches_of (self\<lparr>priv_connected := False\<rparr>) =
     Inl (MsticpyNotConnectedError [''Please run the connect() method before running a query.'']
            ''not connected to a workspace.'' ''TBD'')"
  by (simp add: query_def fired_alerts_def saved_searches_def connected_def)

subsection \<open>Parsing the connection string\<close>

text \<open>
  C2. Three calls on the initial state, with the session factory that returns the
  parameter set it is given. The connection string
  \<^verbatim>\<open>host=h1;port=9000;username=u;password=p\<close> passes the host, the port as the
  integer 9000, the user name and the password, beside the default of \<^verbatim>\<open>verify\<close>. In
  \<^verbatim>\<open>host=h1;username=u;password=a=b\<close> the password after the first \<^verbatim>\<open>=\<close> is
  \<^verbatim>\<open>a=b\<close>, and what is passed is \<^verbatim>\<open>a\<close>: line 86 takes the part between the first and
  the second \<^verbatim>\<open>=\<close>. A string that ends in \<^verbatim>\<open>;\<close> has an empty last segment, and raises
  \<^verbatim>\<open>IndexError\<close>.
\<close>

theorem connection_string_value_cut:
  "service (snd (snd (connect Inr (Some ''host=h1;port=9000;username=u;password=p'') []
      (initial_globals, unconnected)))) =
     Some [(''port'', PInt 9000), (''verify'', PBool False), (''host'', PStr ''h1''),
           (''username'', PStr ''u''), (''password'', PStr ''p'')] \<and>
   service (snd (snd (connect Inr (Some ''host=h1;username=u;password=a=b'') []
      (initial_globals, unconnected)))) =
     Some [(''port'', PInt 8089), (''verify'', PBool False), (''host'', PStr ''h1''),
           (''username'', PStr ''u''), (''password'', PStr ''a'')] \<and>
   fst (connect Inr (Some ''host=h1;username=u;password=p;'') []
      (initial_globals, unconnected)) = Inl IndexError"
  by (simp add: eval_defs)

subsection \<open>Required parameters\<close>

text \<open>
  C3, as amended. Take a call of \<^verbatim>\<open>connect\<close> whose source of parameters is read without
  error, let \<open>merged\<close> be the class dictionary updated with the supplied items, with a
  \<^verbatim>\<open>port\<close> in it, and let \<open>missing\<close> be those of \<^verbatim>\<open>host\<close>, \<^verbatim>\<open>username\<close> and
  \<^verbatim>\<open>password\<close> that \<open>merged\<close> lacks.
  \<^item> If the port converts to an integer, none is missing, and the session factory
    returns a session for the recognized parameters, the call succeeds: it stores that
    session, sets the connected flag and prints the notice.
  \<^item> If the port converts and some are missing, the call raises \<^verbatim>\<open>MsticpyUserError\<close>
    titled "Required arguments missing" whose arguments are exactly the missing names,
    and the instance is as it was.
  \<^item> If the port does not convert, the call raises the \<^verbatim>\<open>ValueError\<close> or
    \<^verbatim>\<open>TypeError\<close> of line 101, whether names are missing or not, and the instance is as
    it was.
  In each case the result, the class dictionary and the instance after the call are given
  in full.
\<close>

theorem connect_required_args:
  assumes "supplied_items [''host'', ''username'', ''password''] connection_str kwargs = Inr items"
    and "merged = dict_update (CONNECT_DEFAULTS g) items"
    and "map_of merged ''port'' = Some port"
    and "missing = filter (\<lambda>name. map_of merged name = None) [''host'', ''username'', ''password'']"
    and "cs_dict = AList.update ''verify'' (PBool (verify_coerce (map_of merged ''verify'')))
                     (AList.update ''port'' (PInt n) merged)"
    and "arg_dict = filter (\<lambda>(key, val). key \<in> fst ` set SPLUNK_CONNECT_ARGS) cs_dict"
    and "res = connect client_connect connection_str kwargs (g, self)"
  shows "(py_int port = Inr n \<and> missing = [] \<and> client_connect arg_dict = Inr svc \<longrightarrow>
            res = (Inr (),
                   g\<lparr>CONNECT_DEFAULTS := cs_dict,
                      stdout := stdout g @ [''Connected to Splunk successfully !!'']\<rparr>,
                   self\<lparr>service := Some svc, priv_connected := True\<rparr>)) \<and>
         (py_int port = Inr n \<and> missing \<noteq> [] \<longrightarrow>
            res = (Inl (MsticpyUserError missing ''Required arguments missing''),
                   g\<lparr>CONNECT_DEFAULTS := cs_dict\<rparr>, self)) \<and>
         (py_int port = Inl e \<longrightarrow>
            res = (Inl e, g\<lparr>CONNECT_DEFAULTS := merged\<rparr>, self) \<and>
            (e = ValueError \<or> e = TypeError))"
proof (intro conjI impI)
  assume a: "py_int port = Inr n \<and> missing = [] \<and> client_connect arg_dict = Inr svc"
  then have p: "py_int port = Inr n" by simp
  from a show "res = (Inr (),
                   g\<lparr>CONNECT_DEFAULTS := cs_dict,
                      stdout := stdout g @ [''Connected to Splunk successfully !!'']\<rparr>,
                   self\<lparr>service := Some svc, priv_connected := True\<rparr>)"
    unfolding assms(7)
    by (simp add: connect_port_ok [OF assms(1) assms(2) assms(3) p assms(4) assms(5) assms(6)])
next
  assume a: "py_int port = Inr n \<and> missing \<noteq> []"
  then have p: "py_int port = Inr n" by simp
  from a show "res = (Inl (MsticpyUserError missing ''Required arguments missing''),
                   g\<lparr>CONNECT_DEFAULTS := cs_dict\<rparr>, self)"
    unfolding assms(7)
    by (simp add: connect_port_ok [OF assms(1) assms(2) assms(3) p assms(4) assms(5) assms(6)])
next
  assume e: "py_int port = Inl e"
  show "res = (Inl e, g\<lparr>CONNECT_DEFAULTS := merged\<rparr>, self)"
    unfolding assms(7) assms(2)
    using assms(3) unfolding assms(2)
    by (rule connect_port_error [OF assms(1) _ e])
  from e show "e = ValueError \<or> e = TypeError"
    by (rule py_int_error)
qed

text \<open>
  The amended statement at three calls on the initial state, with the session factory
  that returns the parameter set it is given: one with the three required names, one with
  \<^verbatim>\<open>host\<close> only, one with \<^verbatim>\<open>None\<close> for the port.
\<close>

theorem connect_required_args_witness:
  "connect Inr None
     [(''host'', PStr ''h1''), (''username'', PStr ''u''), (''password'', PStr ''p'')]
     (initial_globals, unconnected) =
     (Inr (),
      \<lparr>CONNECT_DEFAULTS =
         [(''port'', PInt 8089), (''http_scheme'', PStr ''https''), (''verify'', PBool False),
          (''host'', PStr ''h1''), (''username'', PStr ''u''), (''password'', PStr ''p'')],
       stdout = [''Connected to Splunk successfully !!'']\<rparr>,
      \<lparr>service = Some [(''port'', PInt 8089), (''verify'', PBool False), (''host'', PStr ''h1''),
                        (''username'', PStr ''u''), (''password'', PStr ''p'')],
       priv_connected = True\<rparr>) \<and>
   connect Inr None [(''host'', PStr ''h1'')] (initial_globals, unconnected) =
     (Inl (MsticpyUserError [''username'', ''password''] ''Required arguments missing''),
      \<lparr>CONNECT_DEFAULTS =
         [(''port'', PInt 8089), (''http_scheme'', PStr ''https''), (''verify'', PBool False),
          (''host'', PStr ''h1'')],
       stdout = []\<rparr>,
      unconnected) \<and>
   connect Inr None [(''host'', PStr ''h1''), (''port'', PNone)] (initial_globals, unconnected) =
     (Inl TypeError,
      \<lparr>CONNECT_DEFAULTS =
         [(''port'', PNone), (''http_scheme'', PStr ''https''), (''verify'', PBool False),
          (''host'', PStr ''h1'')],
       stdout = []\<rparr>,
      unconnected)"
proof -
  let ?req = "[''host'', ''username'', ''password'']"
  let ?kw1 = "[(''host'', PStr ''h1''), (''username'', PStr ''u''), (''password'', PStr ''p'')]"
  let ?kw2 = "[(''host'', PStr ''h1'')]"
  let ?kw3 = "[(''host'', PStr ''h1''), (''port'', PNone)]"
  have s1: "supplied_items ?req None ?kw1 = Inr ?kw1"
    and s2: "supplied_items ?req None ?kw2 = Inr ?kw2"
    and s3: "supplied_items ?req None ?kw3 = Inr ?kw3"
    by (simp_all add: supplied_items_def)
  have p1: "map_of (dict_update (CONNECT_DEFAULTS initial_globals) ?kw1) ''port'' = Some (PInt 8089)"
    and p2: "map_of (dict_update (CONNECT_DEFAULTS initial_globals) ?kw2) ''port'' = Some (PInt 8089)"
    and p3: "map_of (dict_update (CONNECT_DEFAULTS initial_globals) ?kw3) ''port'' = Some PNone"
    by (simp_all add: init_defs)
  note t1 = connect_required_args [OF s1 refl p1 refl refl refl refl, where client_connect = Inr
      and self = "unconnected :: dict SplunkDriver" and n = 8089]
  note t2 = connect_required_args [OF s2 refl p2 refl refl refl refl, where client_connect = Inr
      and self = "unconnected :: dict SplunkDriver" and n = 8089]
  note t3 = connect_required_args [OF s3 refl p3 refl refl refl refl, where client_connect = Inr
      and self = "unconnected :: dict SplunkDriver" and e = TypeError]
  from t1 have c1: "connect Inr None ?kw1 (initial_globals, unconnected :: dict SplunkDriver) =
     (Inr (),
      \<lparr>CONNECT_DEFAULTS =
         [(''port'', PInt 8089), (''http_scheme'', PStr ''https''), (''verify'', PBool False),
          (''host'', PStr ''h1''), (''username'', PStr ''u''), (''password'', PStr ''p'')],
       stdout = [''Connected to Splunk successfully !!'']\<rparr>,
      \<lparr>service = Some [(''port'', PInt 8089), (''verify'', PBool False), (''host'', PStr ''h1''),
                        (''username'', PStr ''u''), (''password'', PStr ''p'')],
       priv_connected = True\<rparr>)"
    by (simp add: init_defs unconnected_def SPLUNK_CONNECT_ARGS_def)
  from t2 have c2: "connect Inr None ?kw2 (initial_globals, unconnected :: dict SplunkDriver) =
     (Inl (MsticpyUserError [''username'', ''password''] ''Required arguments missing''),
      \<lparr>CONNECT_DEFAULTS =
         [(''port'', PInt 8089), (''http_scheme'', PStr ''https''), (''verify'', PBool False),
          (''host'', PStr ''h1'')],
       stdout = []\<rparr>,
      unconnected)"
    by (simp add: init_defs)
  from t3 have c3: "connect Inr None ?kw3 (initial_globals, unconnected :: dict SplunkDriver) =
     (Inl TypeError,
      \<lparr>CONNECT_DEFAULTS =
         [(''port'', PNone), (''http_scheme'', PStr ''https''), (''verify'', PBool False),
          (''host'', PStr ''h1'')],
       stdout = []\<rparr>,
      unconnected)"
    by (simp add: init_defs)
  from c1 c2 c3 show ?thesis
    by (simp only: simp_thms)
qed

text \<open>
  C3 as stated fails in both halves, with a session factory that always succeeds. With
  \<^verbatim>\<open>host\<close>, \<^verbatim>\<open>username\<close> and \<^verbatim>\<open>password\<close> supplied, a \<^verbatim>\<open>port\<close> that is no integer
  makes line 101 raise \<^verbatim>\<open>ValueError\<close>, and the driver is not connected. With only
  \<^verbatim>\<open>host\<close> supplied and the same port, the call raises that \<^verbatim>\<open>ValueError\<close> too, and
  not the error that names the missing keys.
\<close>

theorem connect_port_not_integer_counterexample:
  "fst (connect Inr None
          [(''host'', PStr ''h1''), (''username'', PStr ''u''), (''password'', PStr ''p''),
           (''port'', PStr ''abc'')]
          (initial_globals, unconnected)) = Inl ValueError \<and>
   \<not> priv_connected (snd (snd (connect Inr None
          [(''host'', PStr ''h1''), (''username'', PStr ''u''), (''password'', PStr ''p''),
           (''port'', PStr ''abc'')]
          (initial_globals, unconnected)))) \<and>
   fst (connect Inr None [(''host'', PStr ''h1''), (''port'', PStr ''abc'')]
          (initial_globals, unconnected)) = Inl ValueError"
  by (simp add: eval_defs)

subsection \<open>Coercion of verify\<close>




subsection \<open>A query without records\<close>

text \<open>
  C5. On a connected driver, whatever rows the client library yields, and so for no rows
  too, \<^verbatim>\<open>query\<close> returns the table built from them and prints nothing:
  \<^verbatim>\<open>json_response\<close> is a list at line 156, so the branch that warns and returns
  \<^verbatim>\<open>None\<close> is never taken.
\<close>

theorem query_never_warns:
  "query (\<lambda>svc q. Inr rows) to_table q (g, self\<lparr>service := Some svc, priv_connected := True\<rparr>) =
     (Inr (OneTable (to_table rows)), g)"
  by (simp add: query_def fold_append_rows)

subsection \<open>The two sources of parameters\<close>

text \<open>
  C6, as amended. \<^verbatim>\<open>connect\<close> raises the \<^verbatim>\<open>MsticpyUserError\<close> titled "no Splunk
  connection parameters" exactly when both the connection string and the named parameters
  are empty; its message lists the required names and then every recognized parameter
  with its description, and nothing is changed. When the connection string is not empty
  the named parameters are ignored, whether empty or not.
\<close>

theorem connect_input_sources:
  "(fst (connect client_connect connection_str kwargs (g, self)) =
      Inl (MsticpyUserError
             ([''No connection details provided for Splunk connector'',
               ''Required parameters are host, username, password'',
               ''All parameters:'']
              @ map (\<lambda>(arg, desc). arg @ '': '' @ desc) SPLUNK_CONNECT_ARGS)
             ''no Splunk connection parameters'')
    \<longleftrightarrow> (connection_str = None \<or> connection_str = Some []) \<and> kwargs = []) \<and>
   ((connection_str = None \<or> connection_str = Some []) \<and> kwargs = [] \<longrightarrow>
      snd (connect client_connect connection_str kwargs (g, self)) = (g, self)) \<and>
   (connection_str \<noteq> None \<and> connection_str \<noteq> Some [] \<longrightarrow>
      connect client_connect connection_str kwargs (g, self) =
      connect client_connect connection_str [] (g, self))"
proof (intro conjI impI)
  let ?req = "[''host'', ''username'', ''password'']"
  let ?err = "MsticpyUserError
             ([''No connection details provided for Splunk connector'',
               ''Required parameters are host, username, password'',
               ''All parameters:'']
              @ map (\<lambda>(arg, desc). arg @ '': '' @ desc) SPLUNK_CONNECT_ARGS)
             ''no Splunk connection parameters''"
  have empty: "connect client_connect connection_str kwargs (g, self) = (Inl ?err, g, self)"
    if "(connection_str = None \<or> connection_str = Some []) \<and> kwargs = []"
  proof -
    have "supplied_items ?req connection_str kwargs = Inl ?err"
      using that by (auto simp: supplied_items_def no_connection_details_def)
    then show ?thesis
      by (rule connect_supplied_error)
  qed
  show "(fst (connect client_connect connection_str kwargs (g, self)) = Inl ?err)
          \<longleftrightarrow> (connection_str = None \<or> connection_str = Some []) \<and> kwargs = []"
  proof
    assume r: "fst (connect client_connect connection_str kwargs (g, self)) = Inl ?err"
    show "(connection_str = None \<or> connection_str = Some []) \<and> kwargs = []"
    proof (cases "supplied_items ?req connection_str kwargs")
      case (Inl e)
      then have "connect client_connect connection_str kwargs (g, self) = (Inl e, g, self)"
        by (rule connect_supplied_error)
      with r have "e = ?err" by simp
      with supplied_items_error [OF Inl] show ?thesis by auto
    next
      case (Inr items)
      from connect_not_user_input_error [OF Inr] r show ?thesis by blast
    qed
  next
    assume "(connection_str = None \<or> connection_str = Some []) \<and> kwargs = []"
    then have "connect client_connect connection_str kwargs (g, self) = (Inl ?err, g, self)"
      by (rule empty)
    then show "fst (connect client_connect connection_str kwargs (g, self)) = Inl ?err"
      by (simp only: fst_conv)
  qed
  show "snd (connect client_connect connection_str kwargs (g, self)) = (g, self)"
    if "(connection_str = None \<or> connection_str = Some []) \<and> kwargs = []"
  proof -
    from that have "connect client_connect connection_str kwargs (g, self) = (Inl ?err, g, self)"
      by (rule empty)
    then show ?thesis
      by (simp only: snd_conv)
  qed
  show "connect client_connect connection_str kwargs (g, self) =
        connect client_connect connection_str [] (g, self)"
    if "connection_str \<noteq> None \<and> connection_str \<noteq> Some []"
  proof -
    have "supplied_items ?req connection_str kwargs = supplied_items ?req connection_str []"
      using that by (auto simp: supplied_items_def split: option.splits list.splits)
    then show ?thesis
      by (simp add: connect_def)
  qed
qed

text \<open>
  The amended statement at a call with neither source, and at a call with both a
  connection string and a named parameter.
\<close>

theorem connect_input_sources_witness:
  "fst (connect Inr None [] (initial_globals, unconnected)) =
      Inl (MsticpyUserError
             ([''No connection details provided for Splunk connector'',
               ''Required parameters are host, username, password'',
               ''All parameters:'']
              @ map (\<lambda>(arg, desc). arg @ '': '' @ desc) SPLUNK_CONNECT_ARGS)
             ''no Splunk connection parameters'') \<and>
   snd (connect Inr None [] (initial_globals, unconnected)) = (initial_globals, unconnected) \<and>
   connect Inr (Some ''host=h1;username=u;password=p'') [(''token'', PStr ''t'')]
          (initial_globals, unconnected) =
   connect Inr (Some ''host=h1;username=u;password=p'') [] (initial_globals, unconnected)"
  using connect_input_sources [of Inr None "[]" initial_globals "unconnected :: dict SplunkDriver"]
    connect_input_sources [of Inr "Some ''host=h1;username=u;password=p''" "[(''token'', PStr ''t'')]"
      initial_globals "unconnected :: dict SplunkDriver"]
  by simp

text \<open>
  C6 as stated fails: a call with both sources non-empty does not fail, it connects from
  the connection string.
\<close>

theorem connect_both_sources_counterexample:
  "fst (connect Inr (Some ''host=h1;username=u;password=p'') [(''token'', PStr ''t'')]
          (initial_globals, unconnected)) = Inr ()"
  by (simp add: eval_defs)

subsection \<open>Defaults passed to the session factory\<close>

text \<open>
  C7. A first call that supplies only \<^verbatim>\<open>host\<close>, \<^verbatim>\<open>username\<close> and \<^verbatim>\<open>password\<close>
  passes to the session factory the defaults of \<^verbatim>\<open>port\<close> and \<^verbatim>\<open>verify\<close> and no
  \<^verbatim>\<open>scheme\<close>: the class dictionary holds the default \<^verbatim>\<open>https\<close> under the key
  \<^verbatim>\<open>http_scheme\<close>, which is not a key of \<^verbatim>\<open>SPLUNK_CONNECT_ARGS\<close> and is filtered out
  at line 116.
\<close>

theorem default_scheme_not_passed:
  "service (snd (snd (connect Inr None
      [(''host'', PStr ''h1''), (''username'', PStr ''u''), (''password'', PStr ''p'')]
      (initial_globals, unconnected)))) =
     Some [(''port'', PInt 8089), (''verify'', PBool False), (''host'', PStr ''h1''),
           (''username'', PStr ''u''), (''password'', PStr ''p'')] \<and>
   map_of [(''port'', PInt 8089), (''verify'', PBool False), (''host'', PStr ''h1''),
           (''username'', PStr ''u''), (''password'', PStr ''p'')] ''scheme'' = None \<and>
   map_of (CONNECT_DEFAULTS initial_globals) ''http_scheme'' = Some (PStr ''https'') \<and>
   ''http_scheme'' \<notin> fst ` set SPLUNK_CONNECT_ARGS"
  by (simp add: eval_defs)

subsection \<open>The return shape of query\<close>

text \<open>
  C8. What \<^verbatim>\<open>query\<close> returns, for every instance, client library and query text: the
  error of the guard, the fault on an absent session, the exception of the client
  library, or one table built from the rows, with nothing printed. It never returns the
  pair of line 158: \<^verbatim>\<open>json_response\<close> is a list at line 156, so the branch that is
  written to return that pair is never taken, and a query without rows returns one table
  as every other does.
\<close>

theorem query_returns_single_table:
  "query oneshot to_table q (g, self) =
     (if \<not> priv_connected self then
        (Inl (ConnectionError [''Source is not connected.'', ''Please call connect() and retry'']), g)
      else
        (case service self of
           None \<Rightarrow> (Inl AttributeError, g)
         | Some svc \<Rightarrow>
            (case oneshot svc q of
               Inl exc \<Rightarrow> (Inl (Raised exc), g)
             | Inr rows \<Rightarrow> (Inr (OneTable (to_table rows)), g)))) \<and>
   fst (query oneshot to_table q (g, self)) \<noteq> Inr (TwoTuple t c) \<and>
   query (\<lambda>svc q. Inr []) to_table q (g, self\<lparr>service := Some svc, priv_connected := True\<rparr>) =
     (Inr (OneTable (to_table [])), g)"
  by (simp add: query_def fold_append_rows split: option.splits sum.splits)

subsection \<open>The list formatter\<close>

text \<open>
  C9. For every input sequence the list formatter returns the elements, each wrapped in
  double quotes and otherwise unchanged, in input order and separated by commas: nothing
  for the empty sequence, the quoted element for one element, and the quoted first
  element, a comma and the rendering of the rest otherwise. On the two strings
  \<^verbatim>\<open>a\<close> and \<^verbatim>\<open>b,c\<close> the result is \<^verbatim>\<open>"a","b,c"\<close>: the comma inside the second
  element is not escaped.
\<close>

theorem format_list_quotes_in_order:
  "format_list fmt [] = [] \<and>
   format_list fmt [x] = [CHR 0x22] @ fmt x @ [CHR 0x22] \<and>
   format_list fmt (x # y # ys) =
     [CHR 0x22] @ fmt x @ [CHR 0x22] @ '','' @ format_list fmt (y # ys) \<and>
   format_list (\<lambda>s. s) [''a'', ''b,c''] =
     [CHR 0x22, CHR ''a'', CHR 0x22, CHR '','', CHR 0x22, CHR ''b'', CHR '','', CHR ''c'', CHR 0x22]"
  by (simp add: format_list_def)


subsection \<open>The class dictionary is written in place\<close>




end
